theory Spec2Isabelle
  imports Complex_Main "HOL-Library.Multiset"
begin


section \<open>Numbers and missing values\<close>

text \<open>
  The engine computes on Python floats.  A float is modelled as either a real number or
  the not-a-number value \<open>NaN\<close>, which pandas also uses for a missing cell.  Rounding and
  infinities are not modelled: arithmetic on \<open>Fin\<close> values is exact.  Python's \<open>None\<close>
  is the \<open>None\<close> of an \<open>option\<close>.
\<close>

datatype pyfloat = NaN | Fin real

fun fadd :: "pyfloat \<Rightarrow> pyfloat \<Rightarrow> pyfloat" where
  "fadd (Fin a) (Fin b) = Fin (a + b)"
| "fadd _ _ = NaN"

fun fsub :: "pyfloat \<Rightarrow> pyfloat \<Rightarrow> pyfloat" where
  "fsub (Fin a) (Fin b) = Fin (a - b)"
| "fsub _ _ = NaN"

fun fmul :: "pyfloat \<Rightarrow> pyfloat \<Rightarrow> pyfloat" where
  "fmul (Fin a) (Fin b) = Fin (a * b)"
| "fmul _ _ = NaN"

fun fabs :: "pyfloat \<Rightarrow> pyfloat" where
  "fabs (Fin a) = Fin \<bar>a\<bar>"
| "fabs NaN = NaN"

text \<open>Every comparison with \<open>NaN\<close> is false.\<close>

fun flt :: "pyfloat \<Rightarrow> pyfloat \<Rightarrow> bool" where
  "flt (Fin a) (Fin b) = (a < b)"
| "flt _ _ = False"

fun fle :: "pyfloat \<Rightarrow> pyfloat \<Rightarrow> bool" where
  "fle (Fin a) (Fin b) = (a \<le> b)"
| "fle _ _ = False"

definition fgt :: "pyfloat \<Rightarrow> pyfloat \<Rightarrow> bool" where
  "fgt a b = flt b a"

definition fge :: "pyfloat \<Rightarrow> pyfloat \<Rightarrow> bool" where
  "fge a b = fle b a"

definition isna :: "pyfloat \<Rightarrow> bool" where
  "isna x = (x = NaN)"

text \<open>
  Python's two-argument \<open>max(a, b)\<close> keeps \<open>a\<close> unless \<open>b > a\<close>, and \<open>min(a, b)\<close> keeps
  \<open>a\<close> unless \<open>b < a\<close>; with a \<open>NaN\<close> second argument the first one is returned.
\<close>

definition pymax :: "pyfloat \<Rightarrow> pyfloat \<Rightarrow> pyfloat" where
  "pymax a b = (if fgt b a then b else a)"

definition pymin :: "pyfloat \<Rightarrow> pyfloat \<Rightarrow> pyfloat" where
  "pymin a b = (if flt b a then b else a)"

section \<open>Data model\<close>

datatype direction = Long | Short

text \<open>
  One row of the merged table, as the tuple that \<open>itertuples\<close> yields.  The attributes the
  loop reads unconditionally are plain fields; an attribute read with
  \<open>getattr(row, name, default)\<close> is \<open>None\<close> when the tuple has no such field.
\<close>

record row =
  row_datetime :: pyfloat
  row_open :: pyfloat
  row_high :: pyfloat
  row_low :: pyfloat
  row_close :: pyfloat
  row_signal :: pyfloat
  row_stop_price :: "pyfloat option"
  row_take_price :: "pyfloat option"
  row_size :: "pyfloat option"
  row_risk :: "pyfloat option"
  row_trailing_distance :: "pyfloat option"
  row_volume :: "pyfloat option"

text \<open>The trade dictionary; \<open>id_t\<close> and \<open>size_t\<close> are its keys \<open>id\<close> and \<open>size\<close>.\<close>

record trade =
  id_t :: nat
  direction :: direction
  entry_time :: pyfloat
  entry_bar_index :: nat
  entry_price :: pyfloat
  size_t :: pyfloat
  stop_price :: "pyfloat option"
  take_price :: "pyfloat option"
  trailing_distance :: "pyfloat option"
  risk :: "pyfloat option"
  max_favor :: pyfloat
  max_adverse :: pyfloat
  volume_at_entry :: "pyfloat option"
  exit_time :: "pyfloat option"
  exit_bar_index :: "nat option"
  exit_price :: "pyfloat option"
  pnl :: "pyfloat option"
  commission_open :: pyfloat
  commission_close :: pyfloat
  exit_reason :: "string option"

text \<open>
  A pandas table: its column names and its rows, each row listing the cells in column
  order.  Timestamps are cells like any other (a point on the time axis, \<open>NaN\<close> for a
  missing one).
\<close>

record frame =
  columns :: "string list"
  rows :: "pyfloat list list"

text \<open>The fields of a \<open>Backtester\<close> object.\<close>

record backtester =
  df :: frame
  initial_capital :: pyfloat
  single_position_mode :: bool
  commission_perc :: pyfloat
  slippage :: pyfloat

section \<open>Opening and closing a trade\<close>

definition dir_factor :: "direction \<Rightarrow> pyfloat" where
  "dir_factor d = (if d = Long then Fin 1 else Fin (- 1))"

text \<open>\<open>if x is not None and pd.isna(x): x = None\<close>\<close>

definition clean :: "pyfloat option \<Rightarrow> pyfloat option" where
  "clean x = (if x \<noteq> None \<and> x = Some NaN then None else x)"

definition open_trade_from_row ::
  "backtester \<Rightarrow> nat \<Rightarrow> pyfloat \<Rightarrow> pyfloat \<Rightarrow> row \<Rightarrow> nat \<Rightarrow>
     bool \<Rightarrow> bool \<Rightarrow> bool \<Rightarrow> bool \<Rightarrow> bool \<Rightarrow> trade option" where
  "open_trade_from_row self trade_id dt price sig_row bar_index
       has_stop has_take has_size has_risk has_trail =
    (let sigv = row_signal sig_row in
     if sigv = Fin 0 then None
     else
      let direction = (if fgt sigv (Fin 0) then Long else Short);
          size = (if has_size
                  then (case row_size sig_row of None \<Rightarrow> Fin 1 | Some v \<Rightarrow> v)
                  else Fin 1);
          stop_price = clean (if has_stop then row_stop_price sig_row else None);
          take_price = clean (if has_take then row_take_price sig_row else None);
          trailing_distance =
            clean (if has_trail then row_trailing_distance sig_row else None);
          risk = clean (if has_risk then row_risk sig_row else None);
          risk = (case (risk, stop_price) of
                    (None, Some sp) \<Rightarrow> Some (fmul (fabs (fsub price sp)) size)
                  | _ \<Rightarrow> risk);
          entry_px = fmul price (fadd (Fin 1) (fmul (dir_factor direction) (slippage self)));
          commission_open = fmul (fmul (commission_perc self) entry_px) size
      in Some \<lparr> id_t = trade_id,
                direction = direction,
                entry_time = dt,
                entry_bar_index = bar_index,
                entry_price = entry_px,
                size_t = size,
                stop_price = stop_price,
                take_price = take_price,
                trailing_distance = trailing_distance,
                risk = risk,
                max_favor = Fin 0,
                max_adverse = Fin 0,
                volume_at_entry = row_volume sig_row,
                exit_time = None,
                exit_bar_index = None,
                exit_price = None,
                pnl = None,
                commission_open = commission_open,
                commission_close = Fin 0,
                exit_reason = None \<rparr>)"

definition close_trade ::
  "backtester \<Rightarrow> trade \<Rightarrow> pyfloat \<Rightarrow> pyfloat \<Rightarrow> nat \<Rightarrow> string \<Rightarrow> trade" where
  "close_trade self trade exit_px exit_tm exit_idx reason =
    (let px = fmul exit_px
                (fsub (Fin 1) (fmul (dir_factor (direction trade)) (slippage self)));
         comm_close = fmul (fmul (commission_perc self) px) (size_t trade);
         gross_pnl = fmul (fmul (fsub px (entry_price trade)) (size_t trade))
                       (dir_factor (direction trade));
         net_pnl = fsub (fsub gross_pnl (commission_open trade)) comm_close
     in trade \<lparr> exit_time := Some exit_tm,
                exit_bar_index := Some exit_idx,
                exit_price := Some px,
                commission_close := comm_close,
                pnl := Some net_pnl,
                exit_reason := Some reason \<rparr>)"

section \<open>The per-bar update of an open trade\<close>

text \<open>Maximum favourable and adverse excursion.\<close>

definition update_excursion :: "row \<Rightarrow> trade \<Rightarrow> trade" where
  "update_excursion r t =
    (let h = row_high r; l = row_low r; entry_px = entry_price t; size = size_t t;
         best_pnl = (if direction t = Long then fmul (fsub h entry_px) size
                     else fmul (fsub entry_px l) size);
         worst_pnl = (if direction t = Long then fmul (fsub l entry_px) size
                      else fmul (fsub entry_px h) size)
     in t \<lparr> max_favor := pymax (max_favor t) best_pnl,
            max_adverse := pymin (max_adverse t) worst_pnl \<rparr>)"

text \<open>The trailing-stop ratchet.\<close>

definition update_trailing :: "row \<Rightarrow> trade \<Rightarrow> trade" where
  "update_trailing r t =
    (case trailing_distance t of
       None \<Rightarrow> t
     | Some dst \<Rightarrow>
        (if direction t = Long then
           (let new_stop = fsub (row_close r) dst in
            case stop_price t of
              None \<Rightarrow> t \<lparr> stop_price := Some new_stop \<rparr>
            | Some s \<Rightarrow> if isna s then t \<lparr> stop_price := Some new_stop \<rparr>
                        else t \<lparr> stop_price := Some (pymax s new_stop) \<rparr>)
         else
           (let new_stop = fadd (row_close r) dst in
            case stop_price t of
              None \<Rightarrow> t \<lparr> stop_price := Some new_stop \<rparr>
            | Some s \<Rightarrow> if isna s then t \<lparr> stop_price := Some new_stop \<rparr>
                        else t \<lparr> stop_price := Some (pymin s new_stop) \<rparr>)))"

text \<open>The stop and target tests on the bar's low and high.\<close>

definition hit_sl :: "row \<Rightarrow> trade \<Rightarrow> bool" where
  "hit_sl r t =
    (case stop_price t of
       None \<Rightarrow> False
     | Some sp \<Rightarrow> \<not> isna sp \<and>
         (if direction t = Long then fle (row_low r) sp else fge (row_high r) sp))"

definition hit_tp :: "row \<Rightarrow> trade \<Rightarrow> bool" where
  "hit_tp r t =
    (case take_price t of
       None \<Rightarrow> False
     | Some tp \<Rightarrow> \<not> isna tp \<and>
         (if direction t = Long then fge (row_high r) tp else fle (row_low r) tp))"

text \<open>
  The exit price and reason chosen for the bar, if any.  A hit makes the corresponding
  price present, so the \<open>None\<close> alternatives of the two inner cases are never taken.
\<close>

definition exit_decision :: "row \<Rightarrow> trade \<Rightarrow> (pyfloat \<times> string) option" where
  "exit_decision r t =
    (if hit_sl r t \<or> hit_tp r t then
       (if hit_sl r t
        then (case stop_price t of Some sp \<Rightarrow> Some (sp, ''sl'') | None \<Rightarrow> None)
        else (case take_price t of Some tp \<Rightarrow> Some (tp, ''tp'') | None \<Rightarrow> None))
     else None)"


text \<open>
  Section 1 of the loop body: every open trade gets its excursion update, its trailing
  ratchet and its hit test, in this order; the result is the list \<open>still_open\<close> and the
  trades closed on this bar, in the order they are appended to \<open>closed_trades\<close>.
\<close>

definition update_trade :: "row \<Rightarrow> trade \<Rightarrow> trade" where
  "update_trade r t = update_trailing r (update_excursion r t)"

fun update_open_trades ::
  "backtester \<Rightarrow> row \<Rightarrow> nat \<Rightarrow> trade list \<Rightarrow> trade list \<times> trade list" where
  "update_open_trades self r bar_index [] = ([], [])"
| "update_open_trades self r bar_index (t # ts) =
    (let t' = update_trade r t;
         (still_open, now_closed) = update_open_trades self r bar_index ts
     in case exit_decision r t' of
          Some (exit_px, reason) \<Rightarrow>
            (still_open, close_trade self t' exit_px (row_datetime r) bar_index reason # now_closed)
        | None \<Rightarrow> (t' # still_open, now_closed))"

section \<open>The bar loop\<close>

record state =
  open_trades :: "trade list"
  closed_trades :: "trade list"
  trade_id :: nat

record flags =
  has_stop :: bool
  has_take :: bool
  has_size :: bool
  has_risk :: bool
  has_trail :: bool

definition initial_state :: state where
  "initial_state = \<lparr> open_trades = [], closed_trades = [], trade_id = 0 \<rparr>"

text \<open>Open a trade from the row's signal and append it, if one is created.\<close>

definition open_new :: "backtester \<Rightarrow> flags \<Rightarrow> nat \<Rightarrow> row \<Rightarrow> state \<Rightarrow> state" where
  "open_new self fl bar_index r st =
    (case open_trade_from_row self (trade_id st) (row_datetime r) (row_close r) r bar_index
            (has_stop fl) (has_take fl) (has_size fl) (has_risk fl) (has_trail fl) of
       None \<Rightarrow> st
     | Some new_trade \<Rightarrow>
         st \<lparr> open_trades := open_trades st @ [new_trade], trade_id := trade_id st + 1 \<rparr>)"

definition process_bar :: "backtester \<Rightarrow> flags \<Rightarrow> nat \<Rightarrow> row \<Rightarrow> state \<Rightarrow> state" where
  "process_bar self fl bar_index r st =
    (let (still_open, now_closed) = update_open_trades self r bar_index (open_trades st);
         st1 = st \<lparr> open_trades := still_open,
                    closed_trades := closed_trades st @ now_closed \<rparr>;
         sigv = row_signal r
     in if single_position_mode self \<and> sigv \<noteq> Fin 0 \<and> length (open_trades st1) > 0 then
          open_new self fl bar_index r
            (st1 \<lparr> closed_trades := closed_trades st1 @
                       map (\<lambda>t. close_trade self t (row_close r) (row_datetime r)
                                  bar_index ''signal'') (open_trades st1),
                   open_trades := [] \<rparr>)
        else if sigv \<noteq> Fin 0 then
          (if single_position_mode self \<and> length (open_trades st1) > 0 then st1
           else open_new self fl bar_index r st1)
        else st1)"

section \<open>Tables, rows and errors\<close>

datatype error = KeyError string | AttributeError string | IndexError

definition getattr :: "string list \<Rightarrow> pyfloat list \<Rightarrow> string \<Rightarrow> pyfloat option" where
  "getattr cols cells name = map_of (zip cols cells) name"

text \<open>
  The attribute reads at the head of the loop body (\<open>row.datetime\<close>, \<open>row.open\<close>,
  \<open>row.high\<close>, \<open>row.low\<close>, \<open>row.close\<close>, \<open>row.signal\<close>) raise \<open>AttributeError\<close> on a
  tuple without that field; the others are read with a default.
\<close>

definition read_row :: "string list \<Rightarrow> pyfloat list \<Rightarrow> error + row" where
  "read_row cols cells =
    (case getattr cols cells ''datetime'' of
       None \<Rightarrow> Inl (AttributeError ''datetime'')
     | Some dt \<Rightarrow>
    (case getattr cols cells ''open'' of
       None \<Rightarrow> Inl (AttributeError ''open'')
     | Some opn \<Rightarrow>
    (case getattr cols cells ''high'' of
       None \<Rightarrow> Inl (AttributeError ''high'')
     | Some h \<Rightarrow>
    (case getattr cols cells ''low'' of
       None \<Rightarrow> Inl (AttributeError ''low'')
     | Some l \<Rightarrow>
    (case getattr cols cells ''close'' of
       None \<Rightarrow> Inl (AttributeError ''close'')
     | Some c \<Rightarrow>
    (case getattr cols cells ''signal'' of
       None \<Rightarrow> Inl (AttributeError ''signal'')
     | Some sigv \<Rightarrow>
         Inr \<lparr> row_datetime = dt, row_open = opn, row_high = h, row_low = l, row_close = c,
               row_signal = sigv,
               row_stop_price = getattr cols cells ''stop_price'',
               row_take_price = getattr cols cells ''take_price'',
               row_size = getattr cols cells ''size'',
               row_risk = getattr cols cells ''risk'',
               row_trailing_distance = getattr cols cells ''trailing_distance'',
               row_volume = getattr cols cells ''volume'' \<rparr>))))))"

text \<open>\<open>for bar_index, row in enumerate(data.itertuples())\<close>\<close>

fun bar_loop ::
  "backtester \<Rightarrow> flags \<Rightarrow> string list \<Rightarrow> nat \<Rightarrow> pyfloat list list \<Rightarrow> state \<Rightarrow> error + state"
where
  "bar_loop self fl cols bar_index [] st = Inr st"
| "bar_loop self fl cols bar_index (cells # rest) st =
    (case read_row cols cells of
       Inl e \<Rightarrow> Inl e
     | Inr r \<Rightarrow> bar_loop self fl cols (Suc bar_index) rest (process_bar self fl bar_index r st))"


section \<open>Construction, merge and the whole run\<close>

text \<open>
  The configuration dictionary: every recognised key may be absent, and the dictionary
  itself may be \<open>None\<close>.
\<close>

record config =
  cfg_initial_capital :: "pyfloat option"
  cfg_single_position_mode :: "bool option"
  cfg_commission_perc :: "pyfloat option"
  cfg_slippage :: "pyfloat option"

definition get_default :: "config option \<Rightarrow> (config \<Rightarrow> 'a option) \<Rightarrow> 'a \<Rightarrow> 'a" where
  "get_default cfg key dflt =
    (case cfg of None \<Rightarrow> dflt
     | Some c \<Rightarrow> (case key c of None \<Rightarrow> dflt | Some v \<Rightarrow> v))"

text \<open>\<open>Backtester.__init__\<close>: indexing the table by \<open>"datetime"\<close> raises on a missing column.\<close>

definition Backtester_init :: "frame \<Rightarrow> config option \<Rightarrow> error + backtester" where
  "Backtester_init price cfg =
    (if ''datetime'' \<notin> set (columns price) then Inl (KeyError ''datetime'')
     else Inr \<lparr> df = price,
                initial_capital = get_default cfg cfg_initial_capital (Fin 1000),
                single_position_mode = get_default cfg cfg_single_position_mode True,
                commission_perc = get_default cfg cfg_commission_perc (Fin 0),
                slippage = get_default cfg cfg_slippage (Fin 0) \<rparr>)"

text \<open>
  \<open>pd.merge(left, right, on=key, how="left")\<close>: the rows of the left table in order, each
  joined with the right rows of the same key, in their order, or padded with missing
  cells when there is none; a column name other than the key that occurs on both sides
  gets the suffix \<open>_x\<close> on the left and \<open>_y\<close> on the right.
\<close>

definition merge_left :: "frame \<Rightarrow> frame \<Rightarrow> string \<Rightarrow> error + frame" where
  "merge_left left right key =
    (if key \<notin> set (columns left) \<or> key \<notin> set (columns right) then Inl (KeyError key)
     else
      let lcols = map (\<lambda>c. if c \<noteq> key \<and> c \<in> set (columns right) then c @ ''_x'' else c)
                    (columns left);
          rcols = map (\<lambda>c. if c \<in> set (columns left) then c @ ''_y'' else c)
                    (filter (\<lambda>c. c \<noteq> key) (columns right));
          others = (\<lambda>cells. map snd (filter (\<lambda>(c, v). c \<noteq> key) (zip (columns right) cells)));
          joined = (\<lambda>l.
             let ms = filter (\<lambda>cells. getattr (columns right) cells key =
                                       getattr (columns left) l key) (rows right)
             in if ms = [] then [l @ replicate (length rcols) NaN]
                else map (\<lambda>cells. l @ others cells) ms)
      in Inr \<lparr> columns = lcols @ rcols, rows = concat (map joined (rows left)) \<rparr>)"

text \<open>\<open>data["signal"] = 0\<close> on a table without that column.\<close>

definition add_column :: "frame \<Rightarrow> string \<Rightarrow> pyfloat \<Rightarrow> frame" where
  "add_column f name v =
     \<lparr> columns = columns f @ [name], rows = map (\<lambda>cells. cells @ [v]) (rows f) \<rparr>"

text \<open>\<open>fillna(0).astype(int)\<close> on one cell: a missing value is 0, a fraction is cut off.\<close>

definition fillna0_astype_int :: "pyfloat \<Rightarrow> pyfloat" where
  "fillna0_astype_int v =
    (case v of NaN \<Rightarrow> Fin 0
     | Fin x \<Rightarrow> Fin (of_int (if 0 \<le> x then \<lfloor>x\<rfloor> else \<lceil>x\<rceil>)))"

definition map_column :: "frame \<Rightarrow> string \<Rightarrow> (pyfloat \<Rightarrow> pyfloat) \<Rightarrow> frame" where
  "map_column f name g =
     f \<lparr> rows := map (\<lambda>cells. map (\<lambda>(c, v). if c = name then g v else v)
                                  (zip (columns f) cells)) (rows f) \<rparr>"

text \<open>\<open>signals.empty\<close>: no column or no row.\<close>

definition empty_frame :: "frame \<Rightarrow> bool" where
  "empty_frame f = (columns f = [] \<or> rows f = [])"

text \<open>Section 4 of \<open>run\<close>: what is still open is closed on the last row of the table.\<close>

definition close_eod :: "backtester \<Rightarrow> frame \<Rightarrow> state \<Rightarrow> error + trade list" where
  "close_eod self data st =
    (if length (open_trades st) > 0 then
       (if rows data = [] then Inl IndexError
        else
         let last_row = last (rows data) in
         case getattr (columns data) last_row ''datetime'' of
           None \<Rightarrow> Inl (KeyError ''datetime'')
         | Some last_dt \<Rightarrow>
        (case getattr (columns data) last_row ''close'' of
           None \<Rightarrow> Inl (KeyError ''close'')
         | Some last_c \<Rightarrow>
             Inr (closed_trades st @
                  map (\<lambda>t. close_trade self t last_c last_dt (length (rows data) - 1) ''eod'')
                      (open_trades st))))
     else Inr (closed_trades st))"

text \<open>The derived columns of the returned table.\<close>

fun fdiv :: "pyfloat \<Rightarrow> pyfloat \<Rightarrow> pyfloat" where
  "fdiv (Fin a) (Fin b) = (if b = 0 then NaN else Fin (a / b))"
| "fdiv _ _ = NaN"

record ledger_row =
  lr_trade :: trade
  duration :: pyfloat
  bars_in_trade :: "int option"
  result :: string
  risk_float :: pyfloat
  risk_reward :: pyfloat

definition aggregate :: "trade \<Rightarrow> ledger_row" where
  "aggregate t =
    (let p = (case pnl t of None \<Rightarrow> NaN | Some v \<Rightarrow> v);
         rk = (case risk t of None \<Rightarrow> NaN | Some v \<Rightarrow> v)
     in \<lparr> lr_trade = t,
          duration = (case exit_time t of None \<Rightarrow> NaN | Some e \<Rightarrow> fsub e (entry_time t)),
          bars_in_trade = (case exit_bar_index t of None \<Rightarrow> None
                           | Some e \<Rightarrow> Some (int e - int (entry_bar_index t))),
          result = (if fgt p (Fin 0) then ''win'' else if flt p (Fin 0) then ''loss'' else ''be''),
          risk_float = rk,
          risk_reward = (if \<not> isna rk \<and> rk \<noteq> Fin 0 then fdiv p rk else NaN) \<rparr>)"

text \<open>The merged table with its normalised \<open>signal\<close> column.\<close>

definition merged_data :: "backtester \<Rightarrow> frame \<Rightarrow> error + frame" where
  "merged_data self sg =
    (if ''datetime'' \<notin> set (columns sg) then Inl (KeyError ''datetime'')
     else case merge_left (df self) sg ''datetime'' of
            Inl e \<Rightarrow> Inl e
          | Inr data \<Rightarrow>
              Inr (map_column
                     (if ''signal'' \<notin> set (columns data) then add_column data ''signal'' (Fin 0)
                      else data)
                     ''signal'' fillna0_astype_int))"

definition data_flags :: "frame \<Rightarrow> flags" where
  "data_flags data =
    \<lparr> has_stop = (''stop_price'' \<in> set (columns data)),
      has_take = (''take_price'' \<in> set (columns data)),
      has_size = (''size'' \<in> set (columns data)),
      has_risk = (''risk'' \<in> set (columns data)),
      has_trail = (''trailing_distance'' \<in> set (columns data)) \<rparr>"

definition run :: "backtester \<Rightarrow> frame option \<Rightarrow> error + ledger_row list" where
  "run self signals =
    (case signals of
       None \<Rightarrow> Inr []
     | Some sg \<Rightarrow>
        if empty_frame sg then Inr []
        else
         (case merged_data self sg of
            Inl e \<Rightarrow> Inl e
          | Inr data \<Rightarrow>
             (case bar_loop self (data_flags data) (columns data) 0 (rows data) initial_state of
                Inl e \<Rightarrow> Inl e
              | Inr st \<Rightarrow>
                 (case close_eod self data st of
                    Inl e \<Rightarrow> Inl e
                  | Inr ledger \<Rightarrow> Inr (map aggregate ledger)))))"

section \<open>Auxiliary notions for the proofs\<close>

definition close_hit :: "backtester \<Rightarrow> row \<Rightarrow> nat \<Rightarrow> trade \<Rightarrow> trade" where
  "close_hit self r bar_index t =
    (case exit_decision r t of
       Some (exit_px, reason) \<Rightarrow> close_trade self t exit_px (row_datetime r) bar_index reason
     | None \<Rightarrow> t)"

definition new_trades :: "backtester \<Rightarrow> flags \<Rightarrow> nat \<Rightarrow> row \<Rightarrow> nat \<Rightarrow> trade list" where
  "new_trades self fl bar_index r n =
    (case open_trade_from_row self n (row_datetime r) (row_close r) r bar_index
            (has_stop fl) (has_take fl) (has_size fl) (has_risk fl) (has_trail fl) of
       None \<Rightarrow> [] | Some t \<Rightarrow> [t])"

definition survivors :: "row \<Rightarrow> trade list \<Rightarrow> trade list" where
  "survivors r ts = filter (\<lambda>t. exit_decision r t = None) (map (update_trade r) ts)"

definition stopped :: "row \<Rightarrow> trade list \<Rightarrow> trade list" where
  "stopped r ts = filter (\<lambda>t. exit_decision r t \<noteq> None) (map (update_trade r) ts)"

definition all_trades :: "state \<Rightarrow> trade list" where
  "all_trades st = open_trades st @ closed_trades st"

definition wf_ids :: "state \<Rightarrow> bool" where
  "wf_ids st = (distinct (map id_t (all_trades st)) \<and>
                set (map id_t (all_trades st)) = {..<trade_id st})"

definition spec_gross_pnl :: "direction \<Rightarrow> pyfloat \<Rightarrow> pyfloat \<Rightarrow> pyfloat \<Rightarrow> pyfloat" where
  "spec_gross_pnl d entry_px exit_px sz =
     (case d of Long \<Rightarrow> fmul (fsub exit_px entry_px) sz
              | Short \<Rightarrow> fmul (fsub entry_px exit_px) sz)"

definition reconciles :: "trade \<Rightarrow> bool" where
  "reconciles t =
     (case (exit_price t, pnl t) of
        (Some px, Some p) \<Rightarrow>
           p = fsub (fsub (spec_gross_pnl (direction t) (entry_price t) px (size_t t))
                          (commission_open t)) (commission_close t)
      | _ \<Rightarrow> False)"

text \<open>
  A first example run: three bars, a long signal with a stop at 95 on the first bar,
  commission 0.001 and slippage 0.0005; the third bar's low of 94 reaches the stop.
\<close>

definition ex1_prices :: frame where
  "ex1_prices =
     \<lparr> columns = [''datetime'', ''open'', ''high'', ''low'', ''close''],
       rows = [[Fin 0, Fin 100, Fin 101, Fin 99, Fin 100],
               [Fin 1, Fin 100, Fin 102, Fin 98, Fin 101],
               [Fin 2, Fin 100, Fin 101, Fin 94, Fin 96]] \<rparr>"

definition ex1_signals :: frame where
  "ex1_signals =
     \<lparr> columns = [''datetime'', ''signal'', ''stop_price''],
       rows = [[Fin 0, Fin 1, Fin 95]] \<rparr>"

definition ex1_backtester :: backtester where
  "ex1_backtester =
     \<lparr> df = ex1_prices, initial_capital = Fin 1000, single_position_mode = True,
       commission_perc = Fin (1 / 1000), slippage = Fin (5 / 10000) \<rparr>"

definition ex1_closed :: trade where
  "ex1_closed =
     \<lparr> id_t = 0, direction = Long, entry_time = Fin 0, entry_bar_index = 0,
       entry_price = Fin (2001 / 20), size_t = Fin 1, stop_price = Some (Fin 95),
       take_price = None, trailing_distance = None, risk = Some (Fin 5),
       max_favor = Fin (39 / 20), max_adverse = Fin (- (121 / 20)),
       volume_at_entry = None, exit_time = Some (Fin 2), exit_bar_index = Some 2,
       exit_price = Some (Fin (37981 / 400)), pnl = Some (Fin (- (2117001 / 400000))),
       commission_open = Fin (2001 / 20000), commission_close = Fin (37981 / 400000),
       exit_reason = Some ''sl'' \<rparr>"

text \<open>The first merged row of that example, and the column flags of its merged table.\<close>

definition ex1_row0 :: row where
  "ex1_row0 =
     \<lparr> row_datetime = Fin 0, row_open = Fin 100, row_high = Fin 101, row_low = Fin 99,
       row_close = Fin 100, row_signal = Fin 1, row_stop_price = Some (Fin 95),
       row_take_price = None, row_size = None, row_risk = None,
       row_trailing_distance = None, row_volume = None \<rparr>"

definition ex1_flags :: flags where
  "ex1_flags = \<lparr> has_stop = True, has_take = False, has_size = False, has_risk = False,
                  has_trail = False \<rparr>"

definition ex1_opened :: trade where
  "ex1_opened =
     \<lparr> id_t = 0, direction = Long, entry_time = Fin 0, entry_bar_index = 0,
       entry_price = Fin (2001 / 20), size_t = Fin 1, stop_price = Some (Fin 95),
       take_price = None, trailing_distance = None, risk = Some (Fin 5),
       max_favor = Fin 0, max_adverse = Fin 0, volume_at_entry = None, exit_time = None,
       exit_bar_index = None, exit_price = None, pnl = None,
       commission_open = Fin (2001 / 20000), commission_close = Fin 0,
       exit_reason = None \<rparr>"

text \<open>The same row with a short signal and a stop above the price.\<close>

definition ex1_row0_short :: row where
  "ex1_row0_short = ex1_row0 \<lparr> row_signal := Fin (- 1), row_stop_price := Some (Fin 105) \<rparr>"

definition ex1_opened_short :: trade where
  "ex1_opened_short =
     \<lparr> id_t = 0, direction = Short, entry_time = Fin 0, entry_bar_index = 0,
       entry_price = Fin (1999 / 20), size_t = Fin 1, stop_price = Some (Fin 105),
       take_price = None, trailing_distance = None, risk = Some (Fin 5),
       max_favor = Fin 0, max_adverse = Fin 0, volume_at_entry = None, exit_time = None,
       exit_bar_index = None, exit_price = None, pnl = None,
       commission_open = Fin (1999 / 20000), commission_close = Fin 0,
       exit_reason = None \<rparr>"

text \<open>
  The risk that the specification infers for a trade opened without one: the distance
  between the stored entry price and the stop, times the size.
\<close>

definition spec_inferred_risk :: "pyfloat \<Rightarrow> trade \<Rightarrow> pyfloat" where
  "spec_inferred_risk sp t = fmul (fabs (fsub (entry_price t) sp)) (size_t t)"

definition ex1_backtester_noslip :: backtester where
  "ex1_backtester_noslip = ex1_backtester \<lparr> slippage := Fin 0 \<rparr>"

definition ex1_opened_noslip :: trade where
  "ex1_opened_noslip =
     ex1_opened \<lparr> entry_price := Fin 100, commission_open := Fin (1 / 10) \<rparr>"

text \<open>
  The state of a run on the signal table \<open>sg\<close> when its first \<open>k\<close> bars have been
  processed (all of them once \<open>k\<close> reaches their number).
\<close>

definition state_after :: "backtester \<Rightarrow> frame \<Rightarrow> nat \<Rightarrow> error + state" where
  "state_after self sg k =
    (case merged_data self sg of
       Inl e \<Rightarrow> Inl e
     | Inr data \<Rightarrow>
         bar_loop self (data_flags data) (columns data) 0 (take k (rows data)) initial_state)"

definition excursions_signed :: "trade \<Rightarrow> bool" where
  "excursions_signed t = (fge (max_favor t) (Fin 0) \<and> fle (max_adverse t) (Fin 0))"

definition ex1_data :: frame where
  "ex1_data =
     \<lparr> columns = [''datetime'', ''open'', ''high'', ''low'', ''close'', ''signal'',
                  ''stop_price''],
       rows = [[Fin 0, Fin 100, Fin 101, Fin 99, Fin 100, Fin 1, Fin 95],
               [Fin 1, Fin 100, Fin 102, Fin 98, Fin 101, Fin 0, NaN],
               [Fin 2, Fin 100, Fin 101, Fin 94, Fin 96, Fin 0, NaN]] \<rparr>"

text \<open>The open trade of the first example after its second bar.\<close>

definition ex1_open2 :: trade where
  "ex1_open2 = ex1_opened \<lparr> max_favor := Fin (39 / 20), max_adverse := Fin (- (41 / 20)) \<rparr>"

section \<open>Basic facts\<close>

lemma update_open_trades_eq:
  "update_open_trades self r i ts =
     (survivors r ts, map (close_hit self r i) (stopped r ts))"
  by (induction ts)
     (auto simp: close_hit_def survivors_def stopped_def Let_def split: option.splits prod.splits)

lemma new_trades_no_signal: "row_signal r = Fin 0 \<Longrightarrow> new_trades self fl i r n = []"
  by (simp add: new_trades_def open_trade_from_row_def)

lemma open_new_eq:
  "open_new self fl i r st =
     st \<lparr> open_trades := open_trades st @ new_trades self fl i r (trade_id st),
          trade_id := trade_id st + length (new_trades self fl i r (trade_id st)) \<rparr>"
  by (simp add: open_new_def new_trades_def split: option.splits)

lemma process_bar_open:
  "open_trades (process_bar self fl i r st) =
     (if single_position_mode self \<and> row_signal r \<noteq> Fin 0 then []
      else survivors r (open_trades st))
     @ new_trades self fl i r (trade_id st)"
  by (auto simp: process_bar_def update_open_trades_eq open_new_eq new_trades_no_signal Let_def)

lemma process_bar_closed:
  "closed_trades (process_bar self fl i r st) =
     closed_trades st
     @ map (close_hit self r i) (stopped r (open_trades st))
     @ (if single_position_mode self \<and> row_signal r \<noteq> Fin 0
        then map (\<lambda>t. close_trade self t (row_close r) (row_datetime r) i ''signal'')
               (survivors r (open_trades st))
        else [])"
  by (auto simp: process_bar_def update_open_trades_eq open_new_eq new_trades_no_signal Let_def)

lemma process_bar_trade_id:
  "trade_id (process_bar self fl i r st) =
     trade_id st + length (new_trades self fl i r (trade_id st))"
  by (auto simp: process_bar_def update_open_trades_eq open_new_eq new_trades_no_signal Let_def)

lemma update_excursion_fields [simp]:
  "id_t (update_excursion r t) = id_t t"
  "direction (update_excursion r t) = direction t"
  "entry_time (update_excursion r t) = entry_time t"
  "entry_bar_index (update_excursion r t) = entry_bar_index t"
  "entry_price (update_excursion r t) = entry_price t"
  "size_t (update_excursion r t) = size_t t"
  "stop_price (update_excursion r t) = stop_price t"
  "take_price (update_excursion r t) = take_price t"
  "trailing_distance (update_excursion r t) = trailing_distance t"
  "risk (update_excursion r t) = risk t"
  "commission_open (update_excursion r t) = commission_open t"
  "exit_reason (update_excursion r t) = exit_reason t"
  by (simp_all add: update_excursion_def Let_def)

lemma update_trailing_fields [simp]:
  "id_t (update_trailing r t) = id_t t"
  "direction (update_trailing r t) = direction t"
  "entry_time (update_trailing r t) = entry_time t"
  "entry_bar_index (update_trailing r t) = entry_bar_index t"
  "entry_price (update_trailing r t) = entry_price t"
  "size_t (update_trailing r t) = size_t t"
  "take_price (update_trailing r t) = take_price t"
  "trailing_distance (update_trailing r t) = trailing_distance t"
  "risk (update_trailing r t) = risk t"
  "max_favor (update_trailing r t) = max_favor t"
  "max_adverse (update_trailing r t) = max_adverse t"
  "commission_open (update_trailing r t) = commission_open t"
  "exit_reason (update_trailing r t) = exit_reason t"
  by (simp_all add: update_trailing_def Let_def split: option.splits)

lemma update_trade_fields [simp]:
  "id_t (update_trade r t) = id_t t"
  "direction (update_trade r t) = direction t"
  "entry_time (update_trade r t) = entry_time t"
  "entry_bar_index (update_trade r t) = entry_bar_index t"
  "entry_price (update_trade r t) = entry_price t"
  "size_t (update_trade r t) = size_t t"
  "take_price (update_trade r t) = take_price t"
  "trailing_distance (update_trade r t) = trailing_distance t"
  "risk (update_trade r t) = risk t"
  "commission_open (update_trade r t) = commission_open t"
  "exit_reason (update_trade r t) = exit_reason t"
  by (simp_all add: update_trade_def)

lemma close_trade_fields [simp]:
  "id_t (close_trade self t px tm i reason) = id_t t"
  "direction (close_trade self t px tm i reason) = direction t"
  "entry_time (close_trade self t px tm i reason) = entry_time t"
  "entry_bar_index (close_trade self t px tm i reason) = entry_bar_index t"
  "entry_price (close_trade self t px tm i reason) = entry_price t"
  "size_t (close_trade self t px tm i reason) = size_t t"
  "stop_price (close_trade self t px tm i reason) = stop_price t"
  "take_price (close_trade self t px tm i reason) = take_price t"
  "trailing_distance (close_trade self t px tm i reason) = trailing_distance t"
  "risk (close_trade self t px tm i reason) = risk t"
  "max_favor (close_trade self t px tm i reason) = max_favor t"
  "max_adverse (close_trade self t px tm i reason) = max_adverse t"
  "commission_open (close_trade self t px tm i reason) = commission_open t"
  "exit_time (close_trade self t px tm i reason) = Some tm"
  "exit_bar_index (close_trade self t px tm i reason) = Some i"
  "exit_reason (close_trade self t px tm i reason) = Some reason"
  by (simp_all add: close_trade_def Let_def)

lemma close_hit_id [simp]: "id_t (close_hit self r i t) = id_t t"
  by (simp add: close_hit_def split: option.splits)

lemma new_trades_cases:
  "new_trades self fl i r n = [] \<and> row_signal r = Fin 0 \<or>
   (\<exists>t. new_trades self fl i r n = [t] \<and> row_signal r \<noteq> Fin 0 \<and>
        open_trade_from_row self n (row_datetime r) (row_close r) r i
          (has_stop fl) (has_take fl) (has_size fl) (has_risk fl) (has_trail fl) = Some t)"
  by (simp add: new_trades_def open_trade_from_row_def Let_def)

lemma open_trade_from_row_id:
  "open_trade_from_row self n dt price r i hs ht hz hr htr = Some t \<Longrightarrow>
     id_t t = n \<and> entry_bar_index t = i \<and> entry_time t = dt \<and>
     max_favor t = Fin 0 \<and> max_adverse t = Fin 0 \<and> exit_reason t = None"
  by (auto simp: open_trade_from_row_def Let_def split: if_splits)

lemma new_trades_ids: "map id_t (new_trades self fl i r n) = replicate (length (new_trades self fl i r n)) n"
  using new_trades_cases [of self fl i r n] by (auto dest: open_trade_from_row_id)

lemma mset_ids_partition:
  "image_mset id_t (mset (survivors r ts)) + image_mset id_t (mset (stopped r ts))
     = image_mset id_t (mset ts)"
  unfolding survivors_def stopped_def by (induction ts) auto

lemma process_bar_ids:
  "mset (map id_t (all_trades (process_bar self fl i r st))) =
     mset (map id_t (all_trades st)) + mset (map id_t (new_trades self fl i r (trade_id st)))"
  unfolding all_trades_def process_bar_open process_bar_closed
  using mset_ids_partition [of r "open_trades st", symmetric]
  by (simp add: multiset.map_comp comp_def)

lemma wf_ids_process_bar: "wf_ids st \<Longrightarrow> wf_ids (process_bar self fl i r st)"
proof -
  assume wf: "wf_ids st"
  let ?st' = "process_bar self fl i r st"
  let ?new = "new_trades self fl i r (trade_id st)"
  have m: "mset (map id_t (all_trades ?st')) =
           mset (map id_t (all_trades st) @ map id_t ?new)"
    using process_bar_ids [of self fl i r st] by simp
  have d: "distinct (map id_t (all_trades st) @ map id_t ?new)"
    using wf new_trades_cases [of self fl i r "trade_id st"]
    by (auto simp: wf_ids_def dest!: open_trade_from_row_id)
  have s: "set (map id_t (all_trades st) @ map id_t ?new) = {..<trade_id ?st'}"
    using wf new_trades_cases [of self fl i r "trade_id st"]
    by (auto simp: wf_ids_def process_bar_trade_id lessThan_Suc dest!: open_trade_from_row_id)
  from m d have "distinct (map id_t (all_trades ?st'))"
    using mset_eq_imp_distinct_iff by blast
  moreover from m s have "set (map id_t (all_trades ?st')) = {..<trade_id ?st'}"
    using mset_eq_setD by blast
  ultimately show ?thesis by (simp add: wf_ids_def)
qed

lemma wf_ids_initial: "wf_ids initial_state"
  by (simp add: wf_ids_def all_trades_def initial_state_def)

lemma bar_loop_invariant:
  assumes "bar_loop self fl cols i cs st = Inr st'"
      and "Inv i st"
      and "\<And>j r s. Inv j s \<Longrightarrow> Inv (Suc j) (process_bar self fl j r s)"
    shows "Inv (i + length cs) st'"
  using assms(1,2)
proof (induction cs arbitrary: i st)
  case Nil
  then show ?case by simp
next
  case (Cons cells rest)
  then obtain r where r: "read_row cols cells = Inr r"
    by (auto split: sum.splits)
  with Cons.prems have "bar_loop self fl cols (Suc i) rest (process_bar self fl i r st) = Inr st'"
    by simp
  moreover have "Inv (Suc i) (process_bar self fl i r st)"
    using Cons.prems(2) assms(3) by blast
  ultimately have "Inv (Suc i + length rest) st'"
    by (rule Cons.IH)
  then show ?case by simp
qed

lemma bar_loop_wf_ids:
  "bar_loop self fl cols i cs st = Inr st' \<Longrightarrow> wf_ids st \<Longrightarrow> wf_ids st'"
  using bar_loop_invariant [where Inv = "\<lambda>_. wf_ids"] wf_ids_process_bar by blast

lemma fmul_one [simp]: "fmul x (Fin 1) = x" "fmul (Fin 1) x = x"
  by (cases x; simp)+

lemma fmul_minus_one: "fmul (fmul (fsub a b) s) (Fin (- 1)) = fmul (fsub b a) s"
  by (cases a; cases b; cases s; simp add: algebra_simps)

lemma reconciles_close_trade: "reconciles (close_trade self t px tm i reason)"
  by (cases "direction t")
     (simp_all add: reconciles_def close_trade_def spec_gross_pnl_def dir_factor_def Let_def
        fmul_minus_one)

lemma stopped_close_hit:
  "t \<in> set (stopped r ts) \<Longrightarrow>
     \<exists>px reason. exit_decision r t = Some (px, reason) \<and>
        close_hit self r i t = close_trade self t px (row_datetime r) i reason"
  by (auto simp: stopped_def close_hit_def)

lemma survivors_update: "t \<in> set (survivors r ts) \<Longrightarrow> \<exists>u\<in>set ts. t = update_trade r u \<and> exit_decision r t = None"
  by (auto simp: survivors_def)

lemma stopped_update: "t \<in> set (stopped r ts) \<Longrightarrow> \<exists>u\<in>set ts. t = update_trade r u \<and> exit_decision r t \<noteq> None"
  by (auto simp: stopped_def)

lemma process_bar_open_cases:
  assumes "t \<in> set (open_trades (process_bar self fl i r st))"
  shows "(\<exists>u\<in>set (open_trades st). t = update_trade r u \<and> exit_decision r t = None \<and>
            \<not> (single_position_mode self \<and> row_signal r \<noteq> Fin 0))
       \<or> (row_signal r \<noteq> Fin 0 \<and>
          open_trade_from_row self (trade_id st) (row_datetime r) (row_close r) r i
            (has_stop fl) (has_take fl) (has_size fl) (has_risk fl) (has_trail fl) = Some t)"
  using assms new_trades_cases [of self fl i r "trade_id st"]
  by (auto simp: process_bar_open dest: survivors_update split: if_splits)

lemma process_bar_closed_cases:
  assumes "t \<in> set (closed_trades (process_bar self fl i r st))"
  shows "t \<in> set (closed_trades st)
       \<or> (\<exists>u\<in>set (open_trades st). \<exists>px reason.
             exit_decision r (update_trade r u) = Some (px, reason) \<and>
             t = close_trade self (update_trade r u) px (row_datetime r) i reason)
       \<or> (\<exists>u\<in>set (open_trades st). exit_decision r (update_trade r u) = None \<and>
             single_position_mode self \<and> row_signal r \<noteq> Fin 0 \<and>
             t = close_trade self (update_trade r u) (row_close r) (row_datetime r) i ''signal'')"
proof -
  from assms consider
      "t \<in> set (closed_trades st)"
    | "t \<in> close_hit self r i ` set (stopped r (open_trades st))"
    | "single_position_mode self \<and> row_signal r \<noteq> Fin 0"
      "t \<in> (\<lambda>t. close_trade self t (row_close r) (row_datetime r) i ''signal'') `
             set (survivors r (open_trades st))"
    by (auto simp: process_bar_closed split: if_splits)
  then show ?thesis
  proof cases
    case 1
    then show ?thesis by simp
  next
    case 2
    then obtain v where v: "v \<in> set (stopped r (open_trades st))" "t = close_hit self r i v"
      by auto
    from v(1) obtain u where u: "u \<in> set (open_trades st)" "v = update_trade r u"
      using stopped_update by blast
    from v(1) obtain px reason where
      "exit_decision r v = Some (px, reason)"
      "close_hit self r i v = close_trade self v px (row_datetime r) i reason"
      using stopped_close_hit by blast
    with u v show ?thesis by blast
  next
    case 3
    then obtain v where v: "v \<in> set (survivors r (open_trades st))"
      "t = close_trade self v (row_close r) (row_datetime r) i ''signal''"
      by auto
    from v(1) obtain u where "u \<in> set (open_trades st)" "v = update_trade r u"
      "exit_decision r v = None"
      using survivors_update by blast
    with v 3(1) show ?thesis by blast
  qed
qed

lemma trades_invariant:
  assumes loop: "bar_loop self fl cols i cs st = Inr st'"
      and P0: "\<forall>t\<in>set (open_trades st). P t"
      and Q0: "\<forall>t\<in>set (closed_trades st). Q t"
      and new: "\<And>t n dt price r j. open_trade_from_row self n dt price r j
                  (has_stop fl) (has_take fl) (has_size fl) (has_risk fl) (has_trail fl) = Some t
                  \<Longrightarrow> P t"
      and upd: "\<And>t r. P t \<Longrightarrow> P (update_trade r t)"
      and cls: "\<And>t px tm j reason. P t \<Longrightarrow> Q (close_trade self t px tm j reason)"
    shows "(\<forall>t\<in>set (open_trades st'). P t) \<and> (\<forall>t\<in>set (closed_trades st'). Q t)"
proof -
  let ?Inv = "\<lambda>(j::nat) s. (\<forall>t\<in>set (open_trades s). P t) \<and> (\<forall>t\<in>set (closed_trades s). Q t)"
  have step: "?Inv (Suc j) (process_bar self fl j r s)" if inv: "?Inv j s" for j r s
  proof (intro conjI ballI)
    fix t assume "t \<in> set (open_trades (process_bar self fl j r s))"
    from process_bar_open_cases [OF this] inv show "P t"
      using new upd by blast
  next
    fix t assume "t \<in> set (closed_trades (process_bar self fl j r s))"
    from process_bar_closed_cases [OF this] inv show "Q t"
      using upd cls by blast
  qed
  have "?Inv i st" using P0 Q0 by simp
  from bar_loop_invariant [where Inv = ?Inv, OF loop this step] show ?thesis by simp
qed

lemma close_eod_Inr:
  assumes "close_eod self data st = Inr ledger"
  shows "\<exists>last_c last_dt.
           ledger = closed_trades st @
             map (\<lambda>t. close_trade self t last_c last_dt (length (rows data) - 1) ''eod'')
               (open_trades st)"
proof (cases "open_trades st = []")
  case True
  with assms show ?thesis by (simp add: close_eod_def)
next
  case False
  with assms show ?thesis
    by (auto simp: close_eod_def Let_def split: if_splits option.splits)
qed

lemma run_Inr:
  assumes "run self signals = Inr ledger"
  shows "ledger = [] \<or>
         (\<exists>sg data st closed_all. signals = Some sg \<and> \<not> empty_frame sg \<and>
            merged_data self sg = Inr data \<and>
            bar_loop self (data_flags data) (columns data) 0 (rows data) initial_state = Inr st \<and>
            close_eod self data st = Inr closed_all \<and> ledger = map aggregate closed_all)"
  using assms by (auto simp: run_def split: option.splits if_splits sum.splits)

lemma aggregate_trade [simp]: "lr_trade (aggregate t) = t"
  by (simp add: aggregate_def Let_def)

lemma run_ledger_invariant:
  assumes run: "run self signals = Inr ledger"
      and mem: "lr \<in> set ledger"
      and new: "\<And>t n dt price r j hs ht hz hr htr.
                  open_trade_from_row self n dt price r j hs ht hz hr htr = Some t \<Longrightarrow> P t"
      and upd: "\<And>t r. P t \<Longrightarrow> P (update_trade r t)"
      and cls: "\<And>t px tm j reason. P t \<Longrightarrow> Q (close_trade self t px tm j reason)"
    shows "Q (lr_trade lr)"
proof -
  from run mem obtain sg data st closed_all where
      loop: "bar_loop self (data_flags data) (columns data) 0 (rows data) initial_state = Inr st"
    and eod: "close_eod self data st = Inr closed_all"
    and led: "ledger = map aggregate closed_all"
    using run_Inr [OF run] by auto
  have inv: "(\<forall>t\<in>set (open_trades st). P t) \<and> (\<forall>t\<in>set (closed_trades st). Q t)"
  proof (rule trades_invariant [where P = P and Q = Q, OF loop])
    show "\<forall>t\<in>set (open_trades initial_state). P t" by (simp add: initial_state_def)
    show "\<forall>t\<in>set (closed_trades initial_state). Q t" by (simp add: initial_state_def)
  qed (use new upd cls in blast)+
  from close_eod_Inr [OF eod] obtain last_c last_dt where
    c: "closed_all = closed_trades st @
          map (\<lambda>t. close_trade self t last_c last_dt (length (rows data) - 1) ''eod'')
            (open_trades st)"
    by blast
  from mem led obtain t where t: "t \<in> set closed_all" "lr = aggregate t" by auto
  with c inv cls have "Q t" by auto
  with t show ?thesis by simp
qed

lemma ex1_run: "run ex1_backtester (Some ex1_signals) = Inr [aggregate ex1_closed]"
  by code_simp

lemma ex1_bar0:
  "process_bar ex1_backtester ex1_flags 0 ex1_row0 initial_state =
     \<lparr> open_trades = [ex1_opened], closed_trades = [], trade_id = 1 \<rparr>"
  by code_simp

lemma ex1_bar0_short:
  "process_bar ex1_backtester ex1_flags 0 ex1_row0_short initial_state =
     \<lparr> open_trades = [ex1_opened_short], closed_trades = [], trade_id = 1 \<rparr>"
  by code_simp

lemma opened_on_bar:
  assumes "wf_ids st" and "t \<in> set (open_trades (process_bar self fl i r st))"
      and "id_t t = trade_id st"
  shows "row_signal r \<noteq> Fin 0 \<and>
         open_trade_from_row self (trade_id st) (row_datetime r) (row_close r) r i
           (has_stop fl) (has_take fl) (has_size fl) (has_risk fl) (has_trail fl) = Some t"
proof -
  have "id_t u < trade_id st" if "u \<in> set (open_trades st)" for u
    using that assms(1) by (auto simp: wf_ids_def all_trades_def)
  with process_bar_open_cases [OF assms(2)] assms(3) show ?thesis
    by fastforce
qed

lemma fadd_fmul_minus_one: "fadd (Fin 1) (fmul (Fin (- 1)) s) = fsub (Fin 1) s"
  by (cases s) simp_all

lemma open_trade_entry:
  assumes "open_trade_from_row self n dt price r i hs ht hz hr htr = Some t"
  shows "direction t = (if fgt (row_signal r) (Fin 0) then Long else Short)"
    and "entry_price t = fmul price (fadd (Fin 1) (fmul (dir_factor (direction t)) (slippage self)))"
    and "commission_open t = fmul (fmul (commission_perc self) (entry_price t)) (size_t t)"
  using assms by (auto simp: open_trade_from_row_def Let_def split: if_splits)

lemma flt_not_fgt: "flt a b \<Longrightarrow> \<not> fgt a b"
  by (cases a; cases b) (simp_all add: fgt_def)

lemma ex1_bar0_noslip:
  "process_bar ex1_backtester_noslip ex1_flags 0 ex1_row0 initial_state =
     \<lparr> open_trades = [ex1_opened_noslip], closed_trades = [], trade_id = 1 \<rparr>"
  by code_simp

lemma open_trade_risk:
  assumes "open_trade_from_row self n dt price r i hs ht hz hr htr = Some t"
      and "\<not> hr \<or> row_risk r = None \<or> row_risk r = Some NaN"
      and "hs" and "row_stop_price r = Some (Fin sp)"
  shows "risk t = Some (fmul (fabs (fsub price (Fin sp))) (size_t t))"
  using assms by (auto simp: open_trade_from_row_def clean_def Let_def split: if_splits)

lemma entry_price_noslip:
  assumes "open_trade_from_row self n dt price r i hs ht hz hr htr = Some t"
      and "slippage self = Fin 0"
  shows "entry_price t = price"
  using assms
  by (cases price) (auto simp: open_trade_from_row_def dir_factor_def Let_def split: if_splits)

lemma bar_loop_append:
  "bar_loop self fl cols i (xs @ ys) st =
     (case bar_loop self fl cols i xs st of
        Inl e \<Rightarrow> Inl e
      | Inr s \<Rightarrow> bar_loop self fl cols (i + length xs) ys s)"
  by (induction xs arbitrary: i st) (auto split: sum.splits)

lemma ex1_merged: "merged_data ex1_backtester ex1_signals = Inr ex1_data"
  by code_simp

lemma pymax_nonneg: "fge a (Fin 0) \<Longrightarrow> fge (pymax a b) (Fin 0)"
  by (cases a; cases b) (auto simp: pymax_def fge_def fgt_def)

lemma pymin_nonpos: "fle a (Fin 0) \<Longrightarrow> fle (pymin a b) (Fin 0)"
  by (cases a; cases b) (auto simp: pymin_def)

lemma excursions_signed_update:
  "excursions_signed t \<Longrightarrow> excursions_signed (update_trade r t)"
  by (simp add: excursions_signed_def update_trade_def update_excursion_def Let_def
        pymax_nonneg pymin_nonpos)

lemma excursions_signed_close:
  "excursions_signed t \<Longrightarrow> excursions_signed (close_trade self t px tm i reason)"
  by (simp add: excursions_signed_def)

lemma excursions_signed_open:
  "open_trade_from_row self n dt price r i hs ht hz hr htr = Some t \<Longrightarrow> excursions_signed t"
  by (auto simp: excursions_signed_def fge_def dest: open_trade_from_row_id)

lemma state_after_Inr:
  assumes "state_after self sg k = Inr st"
  obtains data where "merged_data self sg = Inr data"
    "bar_loop self (data_flags data) (columns data) 0 (take k (rows data)) initial_state = Inr st"
  using assms by (auto simp: state_after_def split: sum.splits)

lemma ex1_state2:
  "state_after ex1_backtester ex1_signals 2 =
     Inr \<lparr> open_trades = [ex1_open2], closed_trades = [], trade_id = 1 \<rparr>"
  by code_simp

lemma single_position_step:
  assumes "single_position_mode self" and "length (open_trades st) \<le> 1"
  shows "length (open_trades (process_bar self fl i r st)) \<le> 1"
proof -
  have n: "length (new_trades self fl i r (trade_id st)) \<le> 1"
    using new_trades_cases [of self fl i r "trade_id st"] by auto
  have s: "length (survivors r (open_trades st)) \<le> 1"
    using assms(2) by (simp add: survivors_def le_trans [OF length_filter_le])
  show ?thesis
  proof (cases "row_signal r = Fin 0")
    case True
    then show ?thesis using s by (simp add: process_bar_open new_trades_no_signal)
  next
    case False
    then show ?thesis using n assms(1) by (simp add: process_bar_open)
  qed
qed

section \<open>Properties of the simulation\<close>

subsection \<open>Net profit and loss\<close>

text \<open>
  Claim C1.  Every row of the ledger that \<open>run\<close> returns reconciles: its net \<open>pnl\<close> is the
  gross profit and loss, taken on the stored post-slippage entry and exit prices as
  \<open>(exit_price - entry_price) * size\<close> for a long and \<open>(entry_price - exit_price) * size\<close>
  for a short trade, minus \<open>commission_open\<close> minus \<open>commission_close\<close>.
\<close>

theorem net_pnl_reconciliation:
  assumes "run self signals = Inr ledger" and "lr \<in> set ledger"
  shows "reconciles (lr_trade lr)"
  by (rule run_ledger_invariant [OF assms, where P = "\<lambda>_. True"])
     (simp_all add: reconciles_close_trade)

theorem net_pnl_reconciliation_witness:
  "run ex1_backtester (Some ex1_signals) = Inr [aggregate ex1_closed] \<and>
   aggregate ex1_closed \<in> set [aggregate ex1_closed] \<and>
   reconciles (lr_trade (aggregate ex1_closed))"
proof -
  have mem: "aggregate ex1_closed \<in> set [aggregate ex1_closed]" by simp
  from net_pnl_reconciliation [OF ex1_run mem] show ?thesis
    using ex1_run by simp
qed

subsection \<open>Entry price and opening commission\<close>

text \<open>
  Claim C7.  The trade opened on a bar (the one that receives the bar's fresh id
  \<open>trade_id st\<close>) records as entry price the bar's close times \<open>1 + slippage\<close> when the
  signal is positive and times \<open>1 - slippage\<close> when it is negative, and as opening
  commission \<open>commission_perc * entry_price * size\<close>.  The instance of the witness is the
  specification's scenario: commission 0.001, slippage 0.0005 and a long entry at 100
  give the entry price \<open>100 * 1.0005\<close>.
\<close>

theorem entry_price_and_commission_at_open:
  assumes "wf_ids st" and "t \<in> set (open_trades (process_bar self fl i r st))"
      and "id_t t = trade_id st"
  shows "(fgt (row_signal r) (Fin 0) \<longrightarrow>
            entry_price t = fmul (row_close r) (fadd (Fin 1) (slippage self))) \<and>
         (flt (row_signal r) (Fin 0) \<longrightarrow>
            entry_price t = fmul (row_close r) (fsub (Fin 1) (slippage self))) \<and>
         commission_open t = fmul (fmul (commission_perc self) (entry_price t)) (size_t t)"
proof -
  from opened_on_bar [OF assms] have
    op: "open_trade_from_row self (trade_id st) (row_datetime r) (row_close r) r i
           (has_stop fl) (has_take fl) (has_size fl) (has_risk fl) (has_trail fl) = Some t"
    by simp
  note e = open_trade_entry [OF op]
  have "entry_price t = fmul (row_close r) (fadd (Fin 1) (slippage self))"
    if "fgt (row_signal r) (Fin 0)"
    using that e(1,2) by (simp add: dir_factor_def)
  moreover have "entry_price t = fmul (row_close r) (fsub (Fin 1) (slippage self))"
    if "flt (row_signal r) (Fin 0)"
    using flt_not_fgt [OF that] e(1,2) by (simp add: dir_factor_def fadd_fmul_minus_one)
  ultimately show ?thesis using e(3) by blast
qed

theorem entry_price_and_commission_at_open_witness:
  "(wf_ids initial_state \<and>
    ex1_opened \<in> set (open_trades (process_bar ex1_backtester ex1_flags 0 ex1_row0 initial_state)) \<and>
    id_t ex1_opened = trade_id initial_state \<and>
    fgt (row_signal ex1_row0) (Fin 0) \<and>
    commission_perc ex1_backtester = Fin (1 / 1000) \<and> slippage ex1_backtester = Fin (5 / 10000) \<and>
    row_close ex1_row0 = Fin 100 \<and>
    entry_price ex1_opened = Fin (100 * (10005 / 10000)) \<and>
    commission_open ex1_opened = Fin (1 / 1000 * (100 * (10005 / 10000)) * 1)) \<and>
   (ex1_opened_short \<in>
      set (open_trades (process_bar ex1_backtester ex1_flags 0 ex1_row0_short initial_state)) \<and>
    id_t ex1_opened_short = trade_id initial_state \<and>
    flt (row_signal ex1_row0_short) (Fin 0) \<and>
    entry_price ex1_opened_short = Fin (100 * (1 - 5 / 10000)))"
proof -
  have m1: "ex1_opened \<in>
              set (open_trades (process_bar ex1_backtester ex1_flags 0 ex1_row0 initial_state))"
    by (simp add: ex1_bar0)
  have i1: "id_t ex1_opened = trade_id initial_state"
    by (simp add: ex1_opened_def initial_state_def)
  have m2: "ex1_opened_short \<in>
              set (open_trades (process_bar ex1_backtester ex1_flags 0 ex1_row0_short initial_state))"
    by (simp add: ex1_bar0_short)
  have i2: "id_t ex1_opened_short = trade_id initial_state"
    by (simp add: ex1_opened_short_def initial_state_def)
  from entry_price_and_commission_at_open [OF wf_ids_initial m1 i1]
       entry_price_and_commission_at_open [OF wf_ids_initial m2 i2]
  show ?thesis
    using wf_ids_initial m1 i1 m2 i2
    by (simp add: ex1_row0_def ex1_row0_short_def ex1_backtester_def ex1_opened_def
          ex1_opened_short_def fgt_def)
qed

subsection \<open>Inferred risk\<close>

text \<open>
  Claim C6 says that a trade opened without a risk value but with a stop price gets the
  risk \<open>|entry_price - stop_price| * size\<close> on the entry price that includes slippage.
  The code infers the risk from the price it is handed, the bar's close, before slippage
  is applied.  In the first example (close 100, stop 95, slippage 0.0005, size 1) the
  trade is opened at 100.05 and carries the risk 5, in the open list and later in the
  ledger, where the claim asks for 5.05.
\<close>

theorem inferred_risk_counterexample:
  "ex1_opened \<in> set (open_trades (process_bar ex1_backtester ex1_flags 0 ex1_row0 initial_state)) \<and>
   row_risk ex1_row0 = None \<and> row_stop_price ex1_row0 = Some (Fin 95) \<and>
   risk ex1_opened = Some (Fin 5) \<and>
   spec_inferred_risk (Fin 95) ex1_opened = Fin (101 / 20) \<and>
   risk ex1_opened \<noteq> Some (spec_inferred_risk (Fin 95) ex1_opened) \<and>
   run ex1_backtester (Some ex1_signals) = Inr [aggregate ex1_closed] \<and>
   risk (lr_trade (aggregate ex1_closed)) \<noteq>
     Some (spec_inferred_risk (Fin 95) (lr_trade (aggregate ex1_closed)))"
  by (simp add: ex1_bar0 ex1_run)
     (simp add: ex1_row0_def ex1_opened_def ex1_closed_def spec_inferred_risk_def)

text \<open>
  Claim C6 as amended.  The trade opened on a bar from a row with no risk value (the
  column is absent, or the cell is missing) and with a stop price gets the risk
  \<open>|close - stop_price| * size\<close>, where \<open>close\<close> is the bar's close before slippage.  With
  zero slippage the entry price is that close, and the risk is the specification's.
\<close>

theorem inferred_risk_from_close:
  assumes "wf_ids st" and "t \<in> set (open_trades (process_bar self fl i r st))"
      and "id_t t = trade_id st"
      and "\<not> has_risk fl \<or> row_risk r = None \<or> row_risk r = Some NaN"
      and "has_stop fl" and "row_stop_price r = Some (Fin sp)"
  shows "risk t = Some (fmul (fabs (fsub (row_close r) (Fin sp))) (size_t t)) \<and>
         (slippage self = Fin 0 \<longrightarrow> risk t = Some (spec_inferred_risk (Fin sp) t))"
proof -
  from opened_on_bar [OF assms(1-3)] have
    op: "open_trade_from_row self (trade_id st) (row_datetime r) (row_close r) r i
           (has_stop fl) (has_take fl) (has_size fl) (has_risk fl) (has_trail fl) = Some t"
    by simp
  have r: "risk t = Some (fmul (fabs (fsub (row_close r) (Fin sp))) (size_t t))"
    by (rule open_trade_risk [OF op assms(4-6)])
  moreover have "risk t = Some (spec_inferred_risk (Fin sp) t)" if "slippage self = Fin 0"
    using r entry_price_noslip [OF op that] by (simp add: spec_inferred_risk_def)
  ultimately show ?thesis by blast
qed

theorem inferred_risk_from_close_witness:
  "(wf_ids initial_state \<and>
    ex1_opened \<in> set (open_trades (process_bar ex1_backtester ex1_flags 0 ex1_row0 initial_state)) \<and>
    id_t ex1_opened = trade_id initial_state \<and>
    \<not> has_risk ex1_flags \<and> row_risk ex1_row0 = None \<and>
    has_stop ex1_flags \<and> row_stop_price ex1_row0 = Some (Fin 95) \<and>
    risk ex1_opened = Some (Fin 5)) \<and>
   (ex1_opened_noslip \<in>
      set (open_trades (process_bar ex1_backtester_noslip ex1_flags 0 ex1_row0 initial_state)) \<and>
    id_t ex1_opened_noslip = trade_id initial_state \<and>
    slippage ex1_backtester_noslip = Fin 0 \<and>
    risk ex1_opened_noslip = Some (spec_inferred_risk (Fin 95) ex1_opened_noslip))"
proof -
  have m1: "ex1_opened \<in>
              set (open_trades (process_bar ex1_backtester ex1_flags 0 ex1_row0 initial_state))"
    by (simp add: ex1_bar0)
  have i1: "id_t ex1_opened = trade_id initial_state"
    by (simp add: ex1_opened_def initial_state_def)
  have m2: "ex1_opened_noslip \<in>
              set (open_trades (process_bar ex1_backtester_noslip ex1_flags 0 ex1_row0 initial_state))"
    by (simp add: ex1_bar0_noslip)
  have i2: "id_t ex1_opened_noslip = trade_id initial_state"
    by (simp add: ex1_opened_noslip_def ex1_opened_def initial_state_def)
  have nr: "\<not> has_risk ex1_flags \<or> row_risk ex1_row0 = None \<or> row_risk ex1_row0 = Some NaN"
    by (simp add: ex1_flags_def)
  have hs: "has_stop ex1_flags" by (simp add: ex1_flags_def)
  have sp: "row_stop_price ex1_row0 = Some (Fin 95)" by (simp add: ex1_row0_def)
  have z: "slippage ex1_backtester_noslip = Fin 0"
    by (simp add: ex1_backtester_noslip_def)
  from inferred_risk_from_close [OF wf_ids_initial m1 i1 nr hs sp]
       inferred_risk_from_close [OF wf_ids_initial m2 i2 nr hs sp]
  show ?thesis
    using wf_ids_initial m1 i1 m2 i2 hs sp z
    by (simp add: ex1_opened_def ex1_opened_noslip_def spec_inferred_risk_def ex1_flags_def
          ex1_row0_def)
qed

subsection \<open>At most one open trade in single-position mode\<close>

text \<open>
  Claim C2.  With \<open>single_position_mode\<close> set, the list of open trades holds at most one
  trade between any two bars of a run: before the first bar, after the last one and
  after every bar in between.
\<close>

theorem single_position_invariant:
  assumes "single_position_mode self" and "state_after self sg k = Inr st"
  shows "length (open_trades st) \<le> 1"
proof -
  from assms(2) obtain data where
    loop: "bar_loop self (data_flags data) (columns data) 0 (take k (rows data)) initial_state
             = Inr st"
    by (rule state_after_Inr)
  have "length (open_trades initial_state) \<le> 1" by (simp add: initial_state_def)
  from bar_loop_invariant [where Inv = "\<lambda>_ s. length (open_trades s) \<le> 1", OF loop this]
  show ?thesis using single_position_step [OF assms(1)] by blast
qed

theorem single_position_invariant_witness:
  "single_position_mode ex1_backtester \<and>
   state_after ex1_backtester ex1_signals 2 =
     Inr \<lparr> open_trades = [ex1_open2], closed_trades = [], trade_id = 1 \<rparr> \<and>
   length (open_trades \<lparr> open_trades = [ex1_open2], closed_trades = [], trade_id = 1 \<rparr>) \<le> 1"
proof -
  have s: "single_position_mode ex1_backtester" by (simp add: ex1_backtester_def)
  from single_position_invariant [OF s ex1_state2] show ?thesis
    using s ex1_state2 by simp
qed

subsection \<open>The sign of the excursions\<close>

text \<open>
  Claim C10.  At every point of a trade's life its \<open>max_favor\<close> is at least 0 and its
  \<open>max_adverse\<close> at most 0: this holds of every open and every closed trade between any
  two bars of a run, and of every row of the returned ledger.
\<close>

theorem excursions_keep_their_sign:
  "(state_after self sg k = Inr st \<longrightarrow> (\<forall>t\<in>set (all_trades st). excursions_signed t)) \<and>
   (run self signals = Inr ledger \<longrightarrow> (\<forall>lr\<in>set ledger. excursions_signed (lr_trade lr)))"
proof (intro conjI impI ballI)
  fix t
  assume a: "state_after self sg k = Inr st" and t: "t \<in> set (all_trades st)"
  from a obtain data where
    loop: "bar_loop self (data_flags data) (columns data) 0 (take k (rows data)) initial_state
             = Inr st"
    by (rule state_after_Inr)
  have "(\<forall>t\<in>set (open_trades st). excursions_signed t) \<and>
        (\<forall>t\<in>set (closed_trades st). excursions_signed t)"
  proof (rule trades_invariant [where P = excursions_signed and Q = excursions_signed, OF loop])
    show "\<forall>t\<in>set (open_trades initial_state). excursions_signed t"
      by (simp add: initial_state_def)
    show "\<forall>t\<in>set (closed_trades initial_state). excursions_signed t"
      by (simp add: initial_state_def)
  qed (simp_all add: excursions_signed_open excursions_signed_update excursions_signed_close)
  with t show "excursions_signed t" by (auto simp: all_trades_def)
next
  fix lr
  assume "run self signals = Inr ledger" and "lr \<in> set ledger"
  then show "excursions_signed (lr_trade lr)"
    by (rule run_ledger_invariant [where P = excursions_signed])
       (simp_all add: excursions_signed_open excursions_signed_update excursions_signed_close)
qed

theorem excursions_keep_their_sign_witness:
  "state_after ex1_backtester ex1_signals 2 =
     Inr \<lparr> open_trades = [ex1_open2], closed_trades = [], trade_id = 1 \<rparr> \<and>
   ex1_open2 \<in> set (all_trades \<lparr> open_trades = [ex1_open2], closed_trades = [], trade_id = 1 \<rparr>) \<and>
   max_favor ex1_open2 = Fin (39 / 20) \<and> max_adverse ex1_open2 = Fin (- (41 / 20)) \<and>
   excursions_signed ex1_open2 \<and>
   run ex1_backtester (Some ex1_signals) = Inr [aggregate ex1_closed] \<and>
   aggregate ex1_closed \<in> set [aggregate ex1_closed] \<and>
   excursions_signed (lr_trade (aggregate ex1_closed))"
proof -
  have m: "ex1_open2 \<in>
             set (all_trades \<lparr> open_trades = [ex1_open2], closed_trades = [], trade_id = 1 \<rparr>)"
    by (simp add: all_trades_def)
  from excursions_keep_their_sign
         [of ex1_backtester ex1_signals 2
             "\<lparr> open_trades = [ex1_open2], closed_trades = [], trade_id = 1 \<rparr>"
             "Some ex1_signals" "[aggregate ex1_closed]"]
  show ?thesis
    using ex1_state2 ex1_run m by (simp add: ex1_open2_def)
qed

end
